theory Spec2Isabelle
  imports Main "HOL-Library.Sublist"
begin

section \<open>Python strings and values\<close>

text \<open>
  A Python \<open>str\<close> is a sequence of Unicode code points. A code point is a natural
  number here, so that the whitespace \<open>str.strip\<close> removes beyond Latin-1 is part of
  the model. \<open>str\<close> turns a literal into its code points.
\<close>

type_synonym codepoint = nat
type_synonym pystr = "codepoint list"

definition str :: "string \<Rightarrow> pystr" where
  "str cs = map of_char cs"

text \<open>
  The value \<open>response.json()\<close> returns: the Python object a JSON document decodes to.
  The code never looks into a number, so a float keeps its lexeme. A \<open>dict\<close> is an
  association list looked up with \<open>map_of\<close>; its keys are strings, as JSON's are.
\<close>

datatype pyval =
    PyNone
  | PyBool bool
  | PyInt int
  | PyFloat pystr
  | PyStr pystr
  | PyList "pyval list"
  | PyDict "(pystr \<times> pyval) list"

text \<open>What is written between the brackets of \<open>obj[...]\<close>: a string key or an integer index.\<close>

datatype subscript = Key pystr | Idx int

text \<open>
  The \<open>requests.Response\<close> as far as the program reads it: the status code, and the
  decoded body (\<open>None\<close> when the body is not JSON, where \<open>json()\<close> raises).
\<close>

record response =
  status_code :: int
  json_body :: "pyval option"

text \<open>
  What \<open>requests.post\<close> itself raises when no response arrives. The library raises
  \<open>HTTPError\<close> only from \<open>raise_for_status\<close>, so that class is not among them.
  Each carries the text of the failure.
\<close>

datatype transport_error =
    ConnectionError pystr
  | Timeout pystr
  | InvalidHeader pystr
  | OtherRequestFailure pystr

text \<open>The exceptions of the program, all subclasses of \<open>Exception\<close>.\<close>

datatype py_exception =
    HTTPError response
  | RequestFailed transport_error
  | JSONDecodeError
  | KeyError subscript
  | IndexError
  | TypeError
  | AttributeError
  | ValueError
  | UnboundLocalError

fun isinstance_HTTPError :: "py_exception \<Rightarrow> bool" where
  "isinstance_HTTPError (HTTPError r) = True"
| "isinstance_HTTPError e = False"

text \<open>Sequencing of steps that may raise: the first exception ends the sequence.\<close>

definition and_then :: "'e + 'a \<Rightarrow> ('a \<Rightarrow> 'e + 'b) \<Rightarrow> 'e + 'b" where
  "and_then r f = (case r of Inl e \<Rightarrow> Inl e | Inr v \<Rightarrow> f v)"

subsection \<open>String methods\<close>

text \<open>
  \<open>str.strip()\<close> without argument removes leading and trailing whitespace, which for
  a \<open>str\<close> is the set of code points below.
\<close>

definition isspace :: "codepoint \<Rightarrow> bool" where
  "isspace c \<longleftrightarrow>
     (0x09 \<le> c \<and> c \<le> 0x0D) \<or> (0x1C \<le> c \<and> c \<le> 0x20) \<or> c = 0x85 \<or> c = 0xA0 \<or>
     c = 0x1680 \<or> (0x2000 \<le> c \<and> c \<le> 0x200A) \<or> c = 0x2028 \<or> c = 0x2029 \<or>
     c = 0x202F \<or> c = 0x205F \<or> c = 0x3000"

definition py_strip :: "pystr \<Rightarrow> pystr" where
  "py_strip s = rev (dropWhile isspace (rev (dropWhile isspace s)))"

text \<open>\<open>s.find(sub)\<close>: the lowest index where \<open>sub\<close> occurs in \<open>s\<close>, if any.\<close>

fun py_find :: "pystr \<Rightarrow> pystr \<Rightarrow> nat option" where
  "py_find sub [] = (if sub = [] then Some 0 else None)"
| "py_find sub (c # cs) =
     (if prefix sub (c # cs) then Some 0 else map_option Suc (py_find sub cs))"

text \<open>
  \<open>s.split(sep, maxsplit)\<close>: at most \<open>maxsplit\<close> splits, each at the leftmost
  occurrence of \<open>sep\<close> in what remains; an empty separator raises \<open>ValueError\<close>.
\<close>

fun split_from :: "pystr \<Rightarrow> nat \<Rightarrow> pystr \<Rightarrow> pystr list" where
  "split_from sep 0 s = [s]"
| "split_from sep (Suc n) s =
     (case py_find sep s of
        None \<Rightarrow> [s]
      | Some i \<Rightarrow> take i s # split_from sep n (drop (i + length sep) s))"

definition py_split :: "pystr \<Rightarrow> nat \<Rightarrow> pystr \<Rightarrow> py_exception + pystr list" where
  "py_split sep maxsplit s =
     (if sep = [] then Inl ValueError else Inr (split_from sep maxsplit s))"

text \<open>
  \<open>s.replace(old, new)\<close>: every occurrence of \<open>old\<close>, found from the left without
  overlap, becomes \<open>new\<close>. An empty \<open>old\<close> matches before every character and at
  the end.
\<close>

fun replace_from :: "pystr \<Rightarrow> pystr \<Rightarrow> pystr \<Rightarrow> pystr" where
  "replace_from old new [] = []"
| "replace_from old new (c # cs) =
     (if old \<noteq> [] \<and> prefix old (c # cs)
      then new @ replace_from old new (drop (length old) (c # cs))
      else c # replace_from old new cs)"

definition py_replace :: "pystr \<Rightarrow> pystr \<Rightarrow> pystr \<Rightarrow> pystr" where
  "py_replace old new s =
     (if old = [] then new @ concat (map (\<lambda>c. c # new) s) else replace_from old new s)"

subsection \<open>Indexing\<close>

text \<open>
  \<open>xs[i]\<close> on a list: a negative index counts from the end, an index out of range
  raises \<open>IndexError\<close>.
\<close>

definition py_index :: "'a list \<Rightarrow> int \<Rightarrow> py_exception + 'a" where
  "py_index xs i =
     (if 0 \<le> i \<and> i < int (length xs) then Inr (xs ! nat i)
      else if - int (length xs) \<le> i \<and> i < 0 then Inr (xs ! nat (int (length xs) + i))
      else Inl IndexError)"

text \<open>
  \<open>obj[k]\<close> on a decoded JSON value. A dict raises \<open>KeyError\<close> for a key it does not
  hold (an integer is never one of its keys); a list and a string take integers only,
  and a string yields the one-character string at the index; \<open>None\<close>, booleans and
  numbers are not subscriptable.
\<close>

fun getitem :: "pyval \<Rightarrow> subscript \<Rightarrow> py_exception + pyval" where
  "getitem (PyDict d) (Key k) =
     (case map_of d k of Some v \<Rightarrow> Inr v | None \<Rightarrow> Inl (KeyError (Key k)))"
| "getitem (PyDict d) (Idx i) = Inl (KeyError (Idx i))"
| "getitem (PyList xs) (Idx i) = py_index xs i"
| "getitem (PyList xs) (Key k) = Inl TypeError"
| "getitem (PyStr s) (Idx i) = and_then (py_index s i) (\<lambda>c. Inr (PyStr [c]))"
| "getitem (PyStr s) (Key k) = Inl TypeError"
| "getitem v k = Inl TypeError"

text \<open>\<open>obj.strip()\<close>: only a string has the method.\<close>

fun strip_method :: "pyval \<Rightarrow> py_exception + pystr" where
  "strip_method (PyStr s) = Inr (py_strip s)"
| "strip_method v = Inl AttributeError"

text \<open>An f-string field \<open>{x}\<close> where \<open>x\<close> is a string or \<open>None\<close>.\<close>

fun format_field :: "pystr option \<Rightarrow> pystr" where
  "format_field (Some s) = s"
| "format_field None = str ''None''"

section \<open>The remote service and the process environment\<close>

record message =
  role :: pystr
  content :: pystr

record payload =
  model :: pystr
  messages :: "message list"
  max_tokens :: int

record request =
  req_url :: pystr
  req_headers :: "(pystr \<times> pystr) list"
  req_json :: payload

text \<open>
  The world the program runs in. \<open>environ\<close> is the process environment
  (\<open>os.environ\<close>). \<open>calls\<close> holds the requests the program has handed to
  \<open>requests.post\<close> so far, oldest first, one entry for each call. \<open>remote\<close> is
  what a call comes back with, in view of all earlier calls: a response, or the failure
  the library raises. \<open>transmits\<close> is the number of HTTP POSTs the library puts on
  the wire while it serves that call: none when it refuses the request before sending
  (a header value with a line break), one in the plain case, one more for each 307 or
  308 redirect it follows. \<open>on_wire\<close> counts the POSTs put on the wire so far.
\<close>

record world =
  environ :: "pystr \<Rightarrow> pystr option"
  calls :: "request list"
  remote :: "request list \<Rightarrow> request \<Rightarrow> transport_error + response"
  on_wire :: nat
  transmits :: "request list \<Rightarrow> request \<Rightarrow> nat"

definition requests_post ::
  "pystr \<Rightarrow> (pystr \<times> pystr) list \<Rightarrow> payload \<Rightarrow> world \<Rightarrow> (transport_error + response) \<times> world" where
  "requests_post u hs js w =
     (let rq = \<lparr>req_url = u, req_headers = hs, req_json = js\<rparr>
      in (remote w (calls w) rq,
          w\<lparr>calls := calls w @ [rq], on_wire := on_wire w + transmits w (calls w) rq\<rparr>))"

text \<open>\<open>Response.raise_for_status()\<close> raises \<open>HTTPError\<close> for a status from 400 to 599.\<close>

definition raise_for_status :: "response \<Rightarrow> py_exception + unit" where
  "raise_for_status r =
     (if 400 \<le> status_code r \<and> status_code r < 600 then Inl (HTTPError r) else Inr ())"

definition response_json :: "response \<Rightarrow> py_exception + pyval" where
  "response_json r = (case json_body r of None \<Rightarrow> Inl JSONDecodeError | Some v \<Rightarrow> Inr v)"

section \<open>The program\<close>

definition get_groq_api_key :: "world \<Rightarrow> pystr option" where
  "get_groq_api_key w = environ w (str ''GROQ_API_KEY'')"

definition system_content :: pystr where
  \<open>system_content =
     str ''You are a helpful assistant that generates JQL queries for Jira based on natural language descriptions.\<newline>'' @
     str ''                            Follow these strict rules when creating JQL queries:\<newline>'' @
     str ''                            1. For Epics, ALWAYS use 'issuetype = "Program Epic"' (never use just 'Epic')\<newline>'' @
     str ''                            2. For Features, always use 'issuetype = "Feature"'\<newline>'' @
     str ''                            3. For Stories, use 'issuetype = "Story"'\<newline>'' @
     str ''                            4. For Enablers, use 'issuetype = "Enabler"'\<newline>'' @
     str ''                            5. When checking for text matches, use the tilde operator (~)\<newline>'' @
     str ''                            6. When dealing with parent/child relationships:\<newline>'' @
     str ''                               - Use 'parent in (issue in ...)' for parent relationships\<newline>'' @
     str ''                               - Use 'issue in (...)' for direct relationships\<newline>'' @
     str ''                            7. Always use proper parentheses for complex conditions with AND/OR\<newline>'' @
     str ''                            8. Remove any backticks or formatting from the output\<newline>'' @
     str ''                            \<newline>'' @
     str ''                            Respond only with the JQL query, without any explanations or additional text.''\<close>

text \<open>
  The statements of the \<open>try\<close> block after the POST has returned \<open>response\<close>
  (lines 47 to 49).
\<close>

definition read_reply :: "response \<Rightarrow> py_exception + pystr" where
  "read_reply response =
     and_then (raise_for_status response) (\<lambda>_.
     and_then (response_json response) (\<lambda>body.
     and_then (getitem body (Key (str ''choices''))) (\<lambda>choices.
     and_then (getitem choices (Idx 0)) (\<lambda>choice.
     and_then (getitem choice (Key (str ''message''))) (\<lambda>msg.
     and_then (getitem msg (Key (str ''content''))) (\<lambda>jql.
     strip_method jql))))))"

text \<open>
  The two \<open>except\<close> clauses (lines 50 to 56). \<open>response\<close> is the local variable of
  that name, unbound while the POST has not returned. \<open>str_exc\<close> is Python's
  \<open>str()\<close> of an exception, whose wording belongs to the interpreter and to the
  \<open>requests\<close> library. An exception raised inside a clause leaves the function.
\<close>

definition except_clauses ::
  "(py_exception \<Rightarrow> pystr) \<Rightarrow> response option \<Rightarrow> py_exception \<Rightarrow> py_exception + pystr" where
  "except_clauses str_exc response err =
     (if isinstance_HTTPError err then
        (case response of
           None \<Rightarrow> Inl UnboundLocalError
         | Some r \<Rightarrow>
             if status_code r = 429
             then Inr (str ''API key limit reached. Please try again later.'')
             else Inr (str ''HTTP error occurred: '' @ str_exc err))
      else Inr (str ''Other error occurred: '' @ str_exc err))"

definition query_groq_api ::
  "(py_exception \<Rightarrow> pystr) \<Rightarrow> pystr \<Rightarrow> pystr option \<Rightarrow> world \<Rightarrow> (py_exception + pystr) \<times> world" where
  "query_groq_api str_exc search_query api_key w =
     (let url = str ''https://api.groq.com/openai/v1/chat/completions'';
          headers =
            [(str ''Authorization'', str ''Bearer '' @ format_field api_key),
             (str ''Content-Type'', str ''application/json'')];
          data =
            \<lparr>model = str ''mixtral-8x7b-32768'',
             messages =
               [\<lparr>role = str ''system'', content = system_content\<rparr>,
                \<lparr>role = str ''user'',
                 content = str ''Create a JQL query for the following request: '' @ search_query\<rparr>],
             max_tokens = 1024\<rparr>;
          (posted, w') = requests_post url headers data w
      in case posted of
           Inl failure \<Rightarrow> (except_clauses str_exc None (RequestFailed failure), w')
         | Inr response \<Rightarrow>
             (case read_reply response of
                Inl err \<Rightarrow> (except_clauses str_exc (Some response) err, w')
              | Inr jql \<Rightarrow> (Inr jql, w')))"

definition create_jql_filter ::
  "(py_exception \<Rightarrow> pystr) \<Rightarrow> pystr \<Rightarrow> world \<Rightarrow> (py_exception + pystr) \<times> world" where
  "create_jql_filter str_exc search_query w =
     (let api_key = get_groq_api_key w;
          jql = query_groq_api str_exc search_query api_key w
      in jql)"

definition process_response :: "pystr \<Rightarrow> py_exception + pystr \<times> pystr" where
  "process_response response =
     and_then (py_split (str ''\<newline>\<newline>'') 1 response) (\<lambda>parts.
     and_then (py_index parts 0) (\<lambda>part0.
       let jql = py_replace (str ''`'') [] (py_replace (str ''```'') [] (py_strip part0))
       in and_then (if length parts > 1 then py_index parts 1 else Inr []) (\<lambda>explanation.
          Inr (jql, explanation))))"

text \<open>The handler of the generate button: \<open>lambda x: process_response(create_jql_filter(x))\<close>.\<close>

definition generate ::
  "(py_exception \<Rightarrow> pystr) \<Rightarrow> pystr \<Rightarrow> world \<Rightarrow> (py_exception + pystr \<times> pystr) \<times> world" where
  "generate str_exc x w =
     (case create_jql_filter str_exc x w of (raw, w') \<Rightarrow> (and_then raw process_response, w'))"

definition refine_with_error ::
  "(py_exception \<Rightarrow> pystr) \<Rightarrow> pystr \<Rightarrow> pystr \<Rightarrow> world \<Rightarrow> (py_exception + pystr \<times> pystr) \<times> world" where
  "refine_with_error str_exc search_query error_message w =
     (let combined_query =
            str ''Original query: '' @ search_query @ str ''\<newline>Jira error: '' @ error_message @
            str ''\<newline>Please fix the JQL query based on this error.''
      in case create_jql_filter str_exc combined_query w of
           (raw, w') \<Rightarrow> (and_then raw process_response, w'))"

text \<open>
  The four visible fields, and the handler of the done button, \<open>lambda: ("", "", "", "")\<close>,
  whose four results go to the four fields in the order of \<open>outputs\<close>.
\<close>

record fields =
  search_query :: pystr
  jira_error :: pystr
  jql_output :: pystr
  explanation_output :: pystr

definition done_lambda :: "pystr \<times> pystr \<times> pystr \<times> pystr" where
  "done_lambda = (str '''', str '''', str '''', str '''')"

definition done_click :: "fields \<Rightarrow> fields" where
  "done_click shown =
     (case done_lambda of
        (a, b, c, d) \<Rightarrow>
          shown\<lparr>search_query := a, jira_error := b, jql_output := c, explanation_output := d\<rparr>)"

text \<open>The \<open>Authorization\<close> header of a request, \<open>headers["Authorization"]\<close>.\<close>

definition authorization :: "request \<Rightarrow> pystr option" where
  "authorization rq = map_of (req_headers rq) (str ''Authorization'')"

section \<open>Example worlds\<close>

text \<open>
  Concrete surroundings for the examples below: a remote side that gives every call the
  same outcome, a library that puts the same number of POSTs on the wire for every call,
  a world with a given environment in which nothing has happened yet (with one POST for
  each call in \<open>world_with\<close>), a reply body of the expected shape around one text, and
  a rendering of exceptions by the name of their class.
\<close>

definition answers ::
  "transport_error + response \<Rightarrow> request list \<Rightarrow> request \<Rightarrow> transport_error + response" where
  "answers outcome history rq = outcome"

definition sends :: "nat \<Rightarrow> request list \<Rightarrow> request \<Rightarrow> nat" where
  "sends n history rq = n"

definition world_sending ::
  "nat \<Rightarrow> (pystr \<times> pystr) list \<Rightarrow> transport_error + response \<Rightarrow> world" where
  "world_sending n env outcome =
     \<lparr>environ = map_of env, calls = [], remote = answers outcome, on_wire = 0,
      transmits = sends n\<rparr>"

definition world_with :: "(pystr \<times> pystr) list \<Rightarrow> transport_error + response \<Rightarrow> world" where
  "world_with env outcome = world_sending 1 env outcome"

definition reply_with :: "pystr \<Rightarrow> pyval" where
  "reply_with reply =
     PyDict [(str ''choices'',
              PyList [PyDict [(str ''message'', PyDict [(str ''content'', PyStr reply)])]])]"

fun class_name :: "py_exception \<Rightarrow> pystr" where
  "class_name (HTTPError r) = str ''HTTPError''"
| "class_name (RequestFailed f) = str ''RequestFailed''"
| "class_name JSONDecodeError = str ''JSONDecodeError''"
| "class_name (KeyError k) = str ''KeyError''"
| "class_name IndexError = str ''IndexError''"
| "class_name TypeError = str ''TypeError''"
| "class_name AttributeError = str ''AttributeError''"
| "class_name ValueError = str ''ValueError''"
| "class_name UnboundLocalError = str ''UnboundLocalError''"

section \<open>Facts about the string methods\<close>

lemma py_find_None_iff: "py_find sub s = None \<longleftrightarrow> \<not> sublist sub s"
  by (induction s) (auto simp: sublist_Cons_right)

lemma py_find_Some_occurs:
  "py_find sub s = Some i \<Longrightarrow> s = take i s @ sub @ drop (i + length sub) s"
proof (induction s arbitrary: i)
  case Nil
  then show ?case by (simp split: if_splits)
next
  case (Cons c cs)
  show ?case
  proof (cases "prefix sub (c # cs)")
    case True
    with Cons.prems have "i = 0" by simp
    with True show ?thesis by (auto simp: prefix_def)
  next
    case False
    with Cons.prems obtain j where j: "py_find sub cs = Some j" "i = Suc j" by auto
    from Cons.IH[OF j(1)] j(2) show ?thesis by simp
  qed
qed

lemma py_find_Some_first:
  "py_find sub s = Some i \<Longrightarrow> sub \<noteq> [] \<Longrightarrow> \<not> sublist sub (take i s @ butlast sub)"
proof (induction s arbitrary: i)
  case Nil
  then show ?case by (simp split: if_splits)
next
  case (Cons c cs)
  show ?case
  proof (cases "prefix sub (c # cs)")
    case True
    with Cons.prems have "i = 0" by simp
    moreover have "\<not> sublist sub (butlast sub)"
      using Cons.prems(2) sublist_length_le[of sub "butlast sub"] by (cases sub) auto
    ultimately show ?thesis by simp
  next
    case False
    with Cons.prems obtain j where j: "py_find sub cs = Some j" "i = Suc j" by auto
    have no: "\<not> sublist sub (take j cs @ butlast sub)" by (rule Cons.IH[OF j(1) Cons.prems(2)])
    have cs: "cs = take j cs @ sub @ drop (j + length sub) cs" by (rule py_find_Some_occurs[OF j(1)])
    have "\<not> prefix sub (c # take j cs @ butlast sub)"
    proof
      assume p: "prefix sub (c # take j cs @ butlast sub)"
      have "prefix (butlast sub) sub" by (simp add: prefixeq_butlast)
      then have "prefix (take j cs @ butlast sub) (take j cs @ sub @ drop (j + length sub) cs)"
        by (simp add: prefix_def) (metis append.assoc)
      with cs have "prefix (c # take j cs @ butlast sub) (c # cs)" by simp
      with p have "prefix sub (c # cs)" by (rule prefix_order.trans)
      with False show False ..
    qed
    with no j(2) show ?thesis by (simp add: sublist_Cons_right)
  qed
qed

lemma py_find_at_first:
  "sub \<noteq> [] \<Longrightarrow> \<not> sublist sub (before @ butlast sub) \<Longrightarrow>
   py_find sub (before @ sub @ after) = Some (length before)"
proof (induction before)
  case Nil
  then show ?case by (cases sub) simp_all
next
  case (Cons b bs)
  from Cons.prems(2) have np: "\<not> prefix sub (b # bs @ butlast sub)"
    and ns: "\<not> sublist sub (bs @ butlast sub)"
    by (simp_all add: sublist_Cons_right)
  have "\<not> prefix sub (b # bs @ sub @ after)"
  proof
    assume p: "prefix sub (b # bs @ sub @ after)"
    have "prefix (butlast sub) (sub @ after)"
      by (rule prefix_order.trans[OF prefixeq_butlast]) simp
    then have "prefix (b # bs @ butlast sub) (b # bs @ sub @ after)" by simp
    moreover have "length sub \<le> length (b # bs @ butlast sub)" by simp
    ultimately have "prefix sub (b # bs @ butlast sub)" using p by (metis prefix_length_prefix)
    with np show False ..
  qed
  with Cons.IH[OF Cons.prems(1) ns] show ?case by simp
qed

lemma replace_from_single: "replace_from [t] [] s = filter (\<lambda>c. c \<noteq> t) s"
  by (induction s) auto

lemma filter_replace_from:
  "filter P old = [] \<Longrightarrow> filter P (replace_from old [] s) = filter P s"
proof (induction old "[]::pystr" s rule: replace_from.induct)
  case (1 old)
  then show ?case by simp
next
  case (2 old c cs)
  show ?case
  proof (cases "old \<noteq> [] \<and> prefix old (c # cs)")
    case True
    then have "c # cs = old @ drop (length old) (c # cs)" by (auto simp: prefix_def)
    then have "filter P (c # cs) = filter P old @ filter P (drop (length old) (c # cs))"
      by (metis filter_append)
    with True 2 show ?thesis by simp
  next
    case False
    with 2 show ?thesis by auto
  qed
qed

section \<open>The response post-processor\<close>

lemma blank_line_codepoints: "str ''\<newline>\<newline>'' = [10, 10]" "str ''\<newline>'' = [10]"
  by (simp_all add: str_def)

lemma strip_markers:
  "py_replace (str ''`'') [] (py_replace (str ''```'') [] s) = filter (\<lambda>c. c \<notin> set (str ''`'')) s"
proof -
  have "py_replace (str ''`'') [] (py_replace (str ''```'') [] s)
      = filter (\<lambda>c. c \<noteq> 96) (replace_from [96, 96, 96] [] s)"
    by (simp add: py_replace_def str_def replace_from_single)
  also have "\<dots> = filter (\<lambda>c. c \<noteq> 96) s"
    by (rule filter_replace_from) simp
  finally show ?thesis by (simp add: str_def)
qed

lemma process_response_without_blank_line:
  assumes "\<not> sublist (str ''\<newline>\<newline>'') response"
  shows "process_response response =
           Inr (filter (\<lambda>c. c \<notin> set (str ''`'')) (py_strip response), [])"
proof -
  from assms have "py_find [10, 10] response = None"
    by (simp add: py_find_None_iff blank_line_codepoints)
  then have "py_split (str ''\<newline>\<newline>'') 1 response = Inr [response]"
    by (simp add: py_split_def blank_line_codepoints)
  then show ?thesis
    by (simp add: process_response_def and_then_def py_index_def strip_markers)
qed

lemma process_response_at_first_blank_line:
  assumes "\<not> sublist (str ''\<newline>\<newline>'') (before @ str ''\<newline>'')"
  shows "process_response (before @ str ''\<newline>\<newline>'' @ after) =
           Inr (filter (\<lambda>c. c \<notin> set (str ''`'')) (py_strip before), after)"
proof -
  from assms have "\<not> sublist [10, 10] (before @ butlast [10, 10])"
    by (simp add: blank_line_codepoints)
  then have "py_find [10, 10] (before @ [10, 10] @ after) = Some (length before)"
    by (intro py_find_at_first) simp_all
  then have "py_split (str ''\<newline>\<newline>'') 1 (before @ str ''\<newline>\<newline>'' @ after) = Inr [before, after]"
    by (simp add: py_split_def blank_line_codepoints)
  then show ?thesis
    by (simp add: process_response_def and_then_def py_index_def strip_markers)
qed

lemma first_blank_line_exists:
  assumes "sublist (str ''\<newline>\<newline>'') response"
  shows "\<exists>before after. response = before @ str ''\<newline>\<newline>'' @ after \<and>
           \<not> sublist (str ''\<newline>\<newline>'') (before @ str ''\<newline>'')"
proof -
  from assms obtain i where i: "py_find [10, 10] response = Some i"
    using py_find_None_iff[of "[10, 10]" response] by (auto simp: blank_line_codepoints)
  have "response = take i response @ [10, 10] @ drop (i + length [10, 10::nat]) response"
    by (rule py_find_Some_occurs[OF i])
  moreover have "\<not> sublist [10, 10] (take i response @ butlast [10, 10])"
    by (rule py_find_Some_first[OF i]) simp
  ultimately show ?thesis
    unfolding blank_line_codepoints by (intro exI[of _ "take i response"] exI[of _ "drop (i + 2) response"]) simp
qed

text \<open>
  Claim C2. A raw reply that contains a blank line (two consecutive line breaks) is split
  at the first one: the query is the text before it, stripped of surrounding whitespace
  and then of every backtick (a code fence is three of them), and the explanation is the
  text after it. So a reply \<open>Q\n\nE\<close> whose first blank line is the one after \<open>Q\<close>
  yields the query from \<open>Q\<close> and the explanation \<open>E\<close>, and the reply made of the
  letter Q, a blank line and the letter E yields exactly those two letters.
\<close>

theorem process_response_splits_at_first_blank_line:
  "(sublist (str ''\<newline>\<newline>'') response \<longrightarrow>
      (\<exists>before after.
         response = before @ str ''\<newline>\<newline>'' @ after \<and>
         \<not> sublist (str ''\<newline>\<newline>'') (before @ str ''\<newline>'') \<and>
         process_response response =
           Inr (filter (\<lambda>c. c \<notin> set (str ''`'')) (py_strip before), after))) \<and>
   (\<not> sublist (str ''\<newline>\<newline>'') (Q @ str ''\<newline>'') \<longrightarrow>
      process_response (Q @ str ''\<newline>\<newline>'' @ E) =
        Inr (filter (\<lambda>c. c \<notin> set (str ''`'')) (py_strip Q), E)) \<and>
   process_response (str ''Q\<newline>\<newline>E'') = Inr (str ''Q'', str ''E'')"
proof (intro conjI impI)
  assume "sublist (str ''\<newline>\<newline>'') response"
  then obtain before after where s: "response = before @ str ''\<newline>\<newline>'' @ after"
    and f: "\<not> sublist (str ''\<newline>\<newline>'') (before @ str ''\<newline>'')"
    using first_blank_line_exists by blast
  from process_response_at_first_blank_line[OF f, of after] s f
  show "\<exists>before after.
         response = before @ str ''\<newline>\<newline>'' @ after \<and>
         \<not> sublist (str ''\<newline>\<newline>'') (before @ str ''\<newline>'') \<and>
         process_response response =
           Inr (filter (\<lambda>c. c \<notin> set (str ''`'')) (py_strip before), after)"
    by blast
next
  assume "\<not> sublist (str ''\<newline>\<newline>'') (Q @ str ''\<newline>'')"
  then show "process_response (Q @ str ''\<newline>\<newline>'' @ E) =
        Inr (filter (\<lambda>c. c \<notin> set (str ''`'')) (py_strip Q), E)"
    by (rule process_response_at_first_blank_line)
next
  have "\<not> sublist (str ''\<newline>\<newline>'') (str ''Q'' @ str ''\<newline>'')"
    by (simp add: str_def sublist_Cons_right)
  from process_response_at_first_blank_line[OF this, of "str ''E''"]
  show "process_response (str ''Q\<newline>\<newline>E'') = Inr (str ''Q'', str ''E'')"
    by (simp add: str_def py_strip_def isspace_def)
qed

theorem process_response_splits_at_first_blank_line_witness:
  "sublist (str ''\<newline>\<newline>'') (str '' `a```b`\<newline>\<newline>c\<newline>\<newline>d'') \<and>
   \<not> sublist (str ''\<newline>\<newline>'') (str '' `a```b`'' @ str ''\<newline>'') \<and>
   (\<exists>before after.
      str '' `a```b`\<newline>\<newline>c\<newline>\<newline>d'' = before @ str ''\<newline>\<newline>'' @ after \<and>
      \<not> sublist (str ''\<newline>\<newline>'') (before @ str ''\<newline>'') \<and>
      process_response (str '' `a```b`\<newline>\<newline>c\<newline>\<newline>d'') =
        Inr (filter (\<lambda>c. c \<notin> set (str ''`'')) (py_strip before), after)) \<and>
   process_response (str '' `a```b`'' @ str ''\<newline>\<newline>'' @ str ''c\<newline>\<newline>d'') =
     Inr (str ''ab'', str ''c\<newline>\<newline>d'')"
proof -
  have h: "sublist (str ''\<newline>\<newline>'') (str '' `a```b`\<newline>\<newline>c\<newline>\<newline>d'')"
    by (simp add: str_def sublist_Cons_right)
  have g: "\<not> sublist (str ''\<newline>\<newline>'') (str '' `a```b`'' @ str ''\<newline>'')"
    by (simp add: str_def sublist_Cons_right)
  have "process_response (str '' `a```b`'' @ str ''\<newline>\<newline>'' @ str ''c\<newline>\<newline>d'') =
     Inr (filter (\<lambda>c. c \<notin> set (str ''`'')) (py_strip (str '' `a```b`'')), str ''c\<newline>\<newline>d'')"
    using process_response_splits_at_first_blank_line
      [of "str '' `a```b`\<newline>\<newline>c\<newline>\<newline>d''" "str '' `a```b`''" "str ''c\<newline>\<newline>d''"] g
    by blast
  then have "process_response (str '' `a```b`'' @ str ''\<newline>\<newline>'' @ str ''c\<newline>\<newline>d'') =
     Inr (str ''ab'', str ''c\<newline>\<newline>d'')"
    by (simp add: str_def py_strip_def isspace_def)
  with process_response_splits_at_first_blank_line
      [of "str '' `a```b`\<newline>\<newline>c\<newline>\<newline>d''" "str '' `a```b`''" "str ''c\<newline>\<newline>d''"] h g
  show ?thesis by blast
qed

text \<open>
  Claim C3. A raw reply without a blank line yields the whole text, stripped of
  surrounding whitespace and then of backticks, as the query, and the empty string as
  the explanation; and on every string the post-processor returns a pair: it raises
  nothing.
\<close>

theorem process_response_no_blank_line:
  "(\<not> sublist (str ''\<newline>\<newline>'') response \<longrightarrow>
      process_response response = Inr (filter (\<lambda>c. c \<notin> set (str ''`'')) (py_strip response), [])) \<and>
   (\<exists>query explanation. process_response response = Inr (query, explanation))"
proof (intro conjI impI)
  assume "\<not> sublist (str ''\<newline>\<newline>'') response"
  then show "process_response response = Inr (filter (\<lambda>c. c \<notin> set (str ''`'')) (py_strip response), [])"
    by (rule process_response_without_blank_line)
next
  show "\<exists>query explanation. process_response response = Inr (query, explanation)"
  proof (cases "sublist (str ''\<newline>\<newline>'') response")
    case True
    then obtain before after where "response = before @ str ''\<newline>\<newline>'' @ after"
      and "\<not> sublist (str ''\<newline>\<newline>'') (before @ str ''\<newline>'')"
      using first_blank_line_exists by blast
    then show ?thesis using process_response_at_first_blank_line by blast
  next
    case False
    then show ?thesis using process_response_without_blank_line by blast
  qed
qed

theorem process_response_no_blank_line_witness:
  "\<not> sublist (str ''\<newline>\<newline>'') (str '' `x` = 1\<newline>'') \<and>
   process_response (str '' `x` = 1\<newline>'') = Inr (str ''x = 1'', str '''')"
proof -
  have h: "\<not> sublist (str ''\<newline>\<newline>'') (str '' `x` = 1\<newline>'')"
    by (simp add: str_def sublist_Cons_right)
  from process_response_no_blank_line[of "str '' `x` = 1\<newline>''"] h
  show ?thesis by (simp add: str_def py_strip_def isspace_def)
qed

text \<open>
  Claim C10. Stripping and trimming touch the query only: when the first blank line of
  the reply is the one after \<open>before\<close>, the explanation is the text \<open>after\<close> it
  exactly, whatever backticks, code fences, blank lines or surrounding whitespace that
  text holds.
\<close>

theorem explanation_returned_unchanged:
  "\<not> sublist (str ''\<newline>\<newline>'') (before @ str ''\<newline>'') \<Longrightarrow>
   \<exists>query. process_response (before @ str ''\<newline>\<newline>'' @ after) = Inr (query, after)"
  by (simp add: process_response_at_first_blank_line)

theorem explanation_returned_unchanged_witness:
  "\<not> sublist (str ''\<newline>\<newline>'') (str ''q'' @ str ''\<newline>'') \<and>
   (\<exists>query. process_response (str ''q'' @ str ''\<newline>\<newline>'' @ str '' ```e` \<newline>\<newline>\<newline> f  '') =
      Inr (query, str '' ```e` \<newline>\<newline>\<newline> f  ''))"
proof -
  have h: "\<not> sublist (str ''\<newline>\<newline>'') (str ''q'' @ str ''\<newline>'')"
    by (simp add: str_def sublist_Cons_right)
  from explanation_returned_unchanged[OF h] h show ?thesis by blast
qed

section \<open>The completion client\<close>

lemma py_index_not_HTTPError: "py_index xs i = Inl e \<Longrightarrow> \<not> isinstance_HTTPError e"
  by (auto simp: py_index_def Let_def split: if_splits)

lemma getitem_not_HTTPError: "getitem v k = Inl e \<Longrightarrow> \<not> isinstance_HTTPError e"
  by (induction v k rule: getitem.induct)
     (auto simp: and_then_def dest: py_index_not_HTTPError split: option.splits sum.splits)

lemma strip_method_not_HTTPError: "strip_method v = Inl e \<Longrightarrow> \<not> isinstance_HTTPError e"
  by (cases v) auto

lemma read_reply_error_status:
  "400 \<le> status_code r \<Longrightarrow> status_code r < 600 \<Longrightarrow> read_reply r = Inl (HTTPError r)"
  by (simp add: read_reply_def raise_for_status_def and_then_def)

lemma read_reply_other_status:
  assumes "\<not> (400 \<le> status_code r \<and> status_code r < 600)" "read_reply r = Inl e"
  shows "\<not> isinstance_HTTPError e"
  using assms
  by (auto simp: read_reply_def raise_for_status_def response_json_def and_then_def
           split: option.splits sum.splits
           dest: getitem_not_HTTPError strip_method_not_HTTPError)

lemma query_groq_api_sent:
  "\<exists>rq. calls (snd (query_groq_api str_exc q key w)) = calls w @ [rq] \<and>
     environ (snd (query_groq_api str_exc q key w)) = environ w \<and>
     remote (snd (query_groq_api str_exc q key w)) = remote w \<and>
     transmits (snd (query_groq_api str_exc q key w)) = transmits w \<and>
     on_wire (snd (query_groq_api str_exc q key w)) = on_wire w + transmits w (calls w) rq \<and>
     req_headers rq = [(str ''Authorization'', str ''Bearer '' @ format_field key),
                       (str ''Content-Type'', str ''application/json'')] \<and>
     messages (req_json rq) =
       [\<lparr>role = str ''system'', content = system_content\<rparr>,
        \<lparr>role = str ''user'', content = str ''Create a JQL query for the following request: '' @ q\<rparr>] \<and>
     fst (query_groq_api str_exc q key w) =
       (case remote w (calls w) rq of
          Inl failure \<Rightarrow> except_clauses str_exc None (RequestFailed failure)
        | Inr response \<Rightarrow>
            (case read_reply response of
               Inl err \<Rightarrow> except_clauses str_exc (Some response) err
             | Inr jql \<Rightarrow> Inr jql))"
  by (simp add: query_groq_api_def requests_post_def Let_def split: sum.splits)

lemma getitem_Key_Inr:
  "getitem v (Key k) = Inr x \<Longrightarrow> \<exists>d. v = PyDict d \<and> map_of d k = Some x"
  by (cases v) (auto split: option.splits)

lemma getitem_first_Inr:
  "getitem v (Idx 0) = Inr x \<Longrightarrow>
   (\<exists>xs. v = PyList (x # xs)) \<or> (\<exists>c cs. v = PyStr (c # cs) \<and> x = PyStr [c])"
proof (cases v)
  case (PyList xs)
  assume "getitem v (Idx 0) = Inr x"
  with PyList show ?thesis by (cases xs) (auto simp: py_index_def split: if_splits)
next
  case (PyStr s)
  assume "getitem v (Idx 0) = Inr x"
  with PyStr show ?thesis
    by (cases s) (auto simp: py_index_def and_then_def split: if_splits)
qed auto

lemma strip_method_Inr: "strip_method v = Inr s \<Longrightarrow> \<exists>t. v = PyStr t \<and> s = py_strip t"
  by (cases v) auto

lemma read_reply_Inr_shape:
  assumes "read_reply r = Inr s"
  shows "\<exists>d c rest m t.
           json_body r = Some (PyDict d) \<and>
           map_of d (str ''choices'') = Some (PyList (PyDict c # rest)) \<and>
           map_of c (str ''message'') = Some (PyDict m) \<and>
           map_of m (str ''content'') = Some (PyStr t) \<and> s = py_strip t"
proof -
  from assms obtain body ch c0 m0 j where
    b: "json_body r = Some body"
    and 1: "getitem body (Key (str ''choices'')) = Inr ch"
    and 2: "getitem ch (Idx 0) = Inr c0"
    and 3: "getitem c0 (Key (str ''message'')) = Inr m0"
    and 4: "getitem m0 (Key (str ''content'')) = Inr j"
    and 5: "strip_method j = Inr s"
    by (auto simp: read_reply_def response_json_def and_then_def
             split: sum.splits option.splits)
  from 1 obtain d where d: "body = PyDict d" "map_of d (str ''choices'') = Some ch"
    using getitem_Key_Inr by blast
  from 3 obtain c where c: "c0 = PyDict c" "map_of c (str ''message'') = Some m0"
    using getitem_Key_Inr by blast
  from 2 c(1) obtain rest where ch: "ch = PyList (PyDict c # rest)"
    using getitem_first_Inr by blast
  from 4 obtain m where m: "m0 = PyDict m" "map_of m (str ''content'') = Some j"
    using getitem_Key_Inr by blast
  from 5 obtain t where t: "j = PyStr t" "s = py_strip t"
    using strip_method_Inr by blast
  from b d c ch m t show ?thesis by blast
qed

lemma query_groq_api_cases:
  "\<exists>rq.
     calls (snd (query_groq_api str_exc q key w)) = calls w @ [rq] \<and>
     (\<forall>failure. remote w (calls w) rq = Inl failure \<longrightarrow>
        fst (query_groq_api str_exc q key w) =
          Inr (str ''Other error occurred: '' @ str_exc (RequestFailed failure))) \<and>
     (\<forall>r. remote w (calls w) rq = Inr r \<and> 400 \<le> status_code r \<and> status_code r < 600 \<longrightarrow>
        fst (query_groq_api str_exc q key w) =
          Inr (if status_code r = 429
               then str ''API key limit reached. Please try again later.''
               else str ''HTTP error occurred: '' @ str_exc (HTTPError r))) \<and>
     (\<forall>r err. remote w (calls w) rq = Inr r \<and>
          \<not> (400 \<le> status_code r \<and> status_code r < 600) \<and> read_reply r = Inl err \<longrightarrow>
        fst (query_groq_api str_exc q key w) =
          Inr (str ''Other error occurred: '' @ str_exc err)) \<and>
     (\<forall>r s. remote w (calls w) rq = Inr r \<and> read_reply r = Inr s \<longrightarrow>
        fst (query_groq_api str_exc q key w) = Inr s)"
proof -
  obtain rq where s: "calls (snd (query_groq_api str_exc q key w)) = calls w @ [rq]"
    and f: "fst (query_groq_api str_exc q key w) =
       (case remote w (calls w) rq of
          Inl failure \<Rightarrow> except_clauses str_exc None (RequestFailed failure)
        | Inr response \<Rightarrow>
            (case read_reply response of
               Inl err \<Rightarrow> except_clauses str_exc (Some response) err
             | Inr jql \<Rightarrow> Inr jql))"
    using query_groq_api_sent[of str_exc q key w] by blast
  have a: "fst (query_groq_api str_exc q key w) =
          Inr (str ''Other error occurred: '' @ str_exc (RequestFailed failure))"
    if "remote w (calls w) rq = Inl failure" for failure
    using f that by (simp add: except_clauses_def)
  have b: "fst (query_groq_api str_exc q key w) =
          Inr (if status_code r = 429
               then str ''API key limit reached. Please try again later.''
               else str ''HTTP error occurred: '' @ str_exc (HTTPError r))"
    if "remote w (calls w) rq = Inr r" "400 \<le> status_code r" "status_code r < 600" for r
    using f that by (simp add: except_clauses_def read_reply_error_status)
  have c: "fst (query_groq_api str_exc q key w) =
          Inr (str ''Other error occurred: '' @ str_exc err)"
    if "remote w (calls w) rq = Inr r" "\<not> (400 \<le> status_code r \<and> status_code r < 600)"
       "read_reply r = Inl err" for r err
    using f that read_reply_other_status[OF that(2,3)] by (simp add: except_clauses_def)
  have d: "fst (query_groq_api str_exc q key w) = Inr s"
    if "remote w (calls w) rq = Inr r" "read_reply r = Inr s" for r s
    using f that by simp
  from s a b c d show ?thesis by blast
qed

text \<open>
  Claim C1. The completion client always returns a string and raises nothing. It
  returns the fixed text "API key limit reached. Please try again later." when the
  response has status 429, and "HTTP error occurred: " followed by the text of the HTTP
  error for any other status from 400 to 599. It returns "Other error occurred: "
  followed by the text of the error when the POST itself fails, and when the response
  has another status and its body is not a JSON object whose \<open>choices\<close> is a list
  whose first element holds \<open>message.content\<close> as a string: the error of a body that
  is not JSON, of one that is not an object, of a missing \<open>choices\<close>, \<open>message\<close> or
  \<open>content\<close>, of an empty \<open>choices\<close>, and of a content that is not a string.
\<close>

theorem query_groq_api_returns_a_string:
  "\<exists>rq out.
     calls (snd (query_groq_api str_exc q key w)) = calls w @ [rq] \<and>
     fst (query_groq_api str_exc q key w) = Inr out \<and>
     (\<forall>r. remote w (calls w) rq = Inr r \<and> status_code r = 429 \<longrightarrow>
        out = str ''API key limit reached. Please try again later.'') \<and>
     (\<forall>r. remote w (calls w) rq = Inr r \<and> 400 \<le> status_code r \<and> status_code r < 600 \<and>
          status_code r \<noteq> 429 \<longrightarrow>
        out = str ''HTTP error occurred: '' @ str_exc (HTTPError r)) \<and>
     (\<forall>failure. remote w (calls w) rq = Inl failure \<longrightarrow>
        out = str ''Other error occurred: '' @ str_exc (RequestFailed failure)) \<and>
     (\<forall>r. remote w (calls w) rq = Inr r \<and> \<not> (400 \<le> status_code r \<and> status_code r < 600) \<and>
          \<not> (\<exists>d c rest m t.
                json_body r = Some (PyDict d) \<and>
                map_of d (str ''choices'') = Some (PyList (PyDict c # rest)) \<and>
                map_of c (str ''message'') = Some (PyDict m) \<and>
                map_of m (str ''content'') = Some (PyStr t)) \<longrightarrow>
        (\<exists>err. read_reply r = Inl err \<and> \<not> isinstance_HTTPError err \<and>
               out = str ''Other error occurred: '' @ str_exc err)) \<and>
     (\<forall>r. remote w (calls w) rq = Inr r \<and> \<not> (400 \<le> status_code r \<and> status_code r < 600) \<and>
          json_body r = None \<longrightarrow>
        out = str ''Other error occurred: '' @ str_exc JSONDecodeError) \<and>
     (\<forall>r v. remote w (calls w) rq = Inr r \<and> \<not> (400 \<le> status_code r \<and> status_code r < 600) \<and>
          json_body r = Some v \<and> (\<forall>d. v \<noteq> PyDict d) \<longrightarrow>
        out = str ''Other error occurred: '' @ str_exc TypeError) \<and>
     (\<forall>r d. remote w (calls w) rq = Inr r \<and> \<not> (400 \<le> status_code r \<and> status_code r < 600) \<and>
          json_body r = Some (PyDict d) \<and> map_of d (str ''choices'') = None \<longrightarrow>
        out = str ''Other error occurred: '' @ str_exc (KeyError (Key (str ''choices'')))) \<and>
     (\<forall>r d. remote w (calls w) rq = Inr r \<and> \<not> (400 \<le> status_code r \<and> status_code r < 600) \<and>
          json_body r = Some (PyDict d) \<and> map_of d (str ''choices'') = Some (PyList []) \<longrightarrow>
        out = str ''Other error occurred: '' @ str_exc IndexError) \<and>
     (\<forall>r d c rest. remote w (calls w) rq = Inr r \<and>
          \<not> (400 \<le> status_code r \<and> status_code r < 600) \<and>
          json_body r = Some (PyDict d) \<and>
          map_of d (str ''choices'') = Some (PyList (PyDict c # rest)) \<and>
          map_of c (str ''message'') = None \<longrightarrow>
        out = str ''Other error occurred: '' @ str_exc (KeyError (Key (str ''message'')))) \<and>
     (\<forall>r d c rest m. remote w (calls w) rq = Inr r \<and>
          \<not> (400 \<le> status_code r \<and> status_code r < 600) \<and>
          json_body r = Some (PyDict d) \<and>
          map_of d (str ''choices'') = Some (PyList (PyDict c # rest)) \<and>
          map_of c (str ''message'') = Some (PyDict m) \<and>
          map_of m (str ''content'') = None \<longrightarrow>
        out = str ''Other error occurred: '' @ str_exc (KeyError (Key (str ''content'')))) \<and>
     (\<forall>r d c rest m v. remote w (calls w) rq = Inr r \<and>
          \<not> (400 \<le> status_code r \<and> status_code r < 600) \<and>
          json_body r = Some (PyDict d) \<and>
          map_of d (str ''choices'') = Some (PyList (PyDict c # rest)) \<and>
          map_of c (str ''message'') = Some (PyDict m) \<and>
          map_of m (str ''content'') = Some v \<and> (\<forall>t. v \<noteq> PyStr t) \<longrightarrow>
        out = str ''Other error occurred: '' @ str_exc AttributeError)"
proof -
  let ?res = "fst (query_groq_api str_exc q key w)"
  obtain rq where s: "calls (snd (query_groq_api str_exc q key w)) = calls w @ [rq]"
    and a: "\<And>failure. remote w (calls w) rq = Inl failure \<Longrightarrow>
        ?res = Inr (str ''Other error occurred: '' @ str_exc (RequestFailed failure))"
    and b: "\<And>r. remote w (calls w) rq = Inr r \<Longrightarrow> 400 \<le> status_code r \<Longrightarrow>
        status_code r < 600 \<Longrightarrow>
        ?res = Inr (if status_code r = 429
               then str ''API key limit reached. Please try again later.''
               else str ''HTTP error occurred: '' @ str_exc (HTTPError r))"
    and c: "\<And>r err. remote w (calls w) rq = Inr r \<Longrightarrow>
        \<not> (400 \<le> status_code r \<and> status_code r < 600) \<Longrightarrow> read_reply r = Inl err \<Longrightarrow>
        ?res = Inr (str ''Other error occurred: '' @ str_exc err)"
    and d: "\<And>r s. remote w (calls w) rq = Inr r \<Longrightarrow> read_reply r = Inr s \<Longrightarrow> ?res = Inr s"
    using query_groq_api_cases[of str_exc q key w] by blast
  have "\<exists>out. ?res = Inr out"
  proof (cases "remote w (calls w) rq")
    case (Inl failure)
    then show ?thesis using a by blast
  next
    case (Inr r)
    show ?thesis
    proof (cases "read_reply r")
      case (Inl err)
      show ?thesis
      proof (cases "400 \<le> status_code r \<and> status_code r < 600")
        case True
        with b[OF Inr] show ?thesis by blast
      next
        case False
        from c[OF Inr False Inl] show ?thesis by blast
      qed
    next
      case inr: (Inr jql)
      from d[OF Inr inr] show ?thesis by blast
    qed
  qed
  then obtain out where out: "?res = Inr out" ..
  have c': "out = str ''Other error occurred: '' @ str_exc err"
    if "remote w (calls w) rq = Inr r" "\<not> (400 \<le> status_code r \<and> status_code r < 600)"
       "read_reply r = Inl err" for r err
    using c[OF that] out by simp
  have 1: "out = str ''API key limit reached. Please try again later.''"
    if "remote w (calls w) rq = Inr r" "status_code r = 429" for r
    using b[OF that(1)] that(2) out by simp
  have 2: "out = str ''HTTP error occurred: '' @ str_exc (HTTPError r)"
    if "remote w (calls w) rq = Inr r" "400 \<le> status_code r" "status_code r < 600"
       "status_code r \<noteq> 429" for r
    using b[OF that(1,2,3)] that(4) out by simp
  have 3: "out = str ''Other error occurred: '' @ str_exc (RequestFailed failure)"
    if "remote w (calls w) rq = Inl failure" for failure
    using a[OF that] out by simp
  have 4: "\<exists>err. read_reply r = Inl err \<and> \<not> isinstance_HTTPError err \<and>
               out = str ''Other error occurred: '' @ str_exc err"
    if "remote w (calls w) rq = Inr r" "\<not> (400 \<le> status_code r \<and> status_code r < 600)"
       "\<not> (\<exists>d c rest m t.
                json_body r = Some (PyDict d) \<and>
                map_of d (str ''choices'') = Some (PyList (PyDict c # rest)) \<and>
                map_of c (str ''message'') = Some (PyDict m) \<and>
                map_of m (str ''content'') = Some (PyStr t))" for r
  proof (cases "read_reply r")
    case (Inl err)
    with c'[OF that(1,2)] read_reply_other_status[OF that(2)] show ?thesis by blast
  next
    case (Inr s)
    from read_reply_Inr_shape[OF this] that(3) show ?thesis by blast
  qed
  have 5: "out = str ''Other error occurred: '' @ str_exc JSONDecodeError"
    if "remote w (calls w) rq = Inr r" "\<not> (400 \<le> status_code r \<and> status_code r < 600)"
       "json_body r = None" for r
  proof -
    from that(2,3) have "read_reply r = Inl JSONDecodeError"
      by (simp add: read_reply_def raise_for_status_def response_json_def and_then_def)
    with c'[OF that(1,2)] show ?thesis by blast
  qed
  have 6: "out = str ''Other error occurred: '' @ str_exc TypeError"
    if "remote w (calls w) rq = Inr r" "\<not> (400 \<le> status_code r \<and> status_code r < 600)"
       "json_body r = Some v" "\<forall>d. v \<noteq> PyDict d" for r v
  proof -
    from that(4) have "getitem v (Key (str ''choices'')) = Inl TypeError" by (cases v) auto
    with that(2,3) have "read_reply r = Inl TypeError"
      by (simp add: read_reply_def raise_for_status_def response_json_def and_then_def)
    with c'[OF that(1,2)] show ?thesis by blast
  qed
  have 7: "out = str ''Other error occurred: '' @ str_exc (KeyError (Key (str ''choices'')))"
    if "remote w (calls w) rq = Inr r" "\<not> (400 \<le> status_code r \<and> status_code r < 600)"
       "json_body r = Some (PyDict d)" "map_of d (str ''choices'') = None" for r d
  proof -
    from that(2,3,4) have "read_reply r = Inl (KeyError (Key (str ''choices'')))"
      by (simp add: read_reply_def raise_for_status_def response_json_def and_then_def)
    with c'[OF that(1,2)] show ?thesis by blast
  qed
  have 8: "out = str ''Other error occurred: '' @ str_exc IndexError"
    if "remote w (calls w) rq = Inr r" "\<not> (400 \<le> status_code r \<and> status_code r < 600)"
       "json_body r = Some (PyDict d)" "map_of d (str ''choices'') = Some (PyList [])" for r d
  proof -
    from that(2,3,4) have "read_reply r = Inl IndexError"
      by (simp add: read_reply_def raise_for_status_def response_json_def and_then_def
            py_index_def)
    with c'[OF that(1,2)] show ?thesis by blast
  qed
  have 9: "out = str ''Other error occurred: '' @ str_exc (KeyError (Key (str ''message'')))"
    if "remote w (calls w) rq = Inr r" "\<not> (400 \<le> status_code r \<and> status_code r < 600)"
       "json_body r = Some (PyDict d)"
       "map_of d (str ''choices'') = Some (PyList (PyDict c # rest))"
       "map_of c (str ''message'') = None" for r d c rest
  proof -
    from that(2,3,4,5) have "read_reply r = Inl (KeyError (Key (str ''message'')))"
      by (simp add: read_reply_def raise_for_status_def response_json_def and_then_def
            py_index_def)
    with c'[OF that(1,2)] show ?thesis by blast
  qed
  have 10: "out = str ''Other error occurred: '' @ str_exc (KeyError (Key (str ''content'')))"
    if "remote w (calls w) rq = Inr r" "\<not> (400 \<le> status_code r \<and> status_code r < 600)"
       "json_body r = Some (PyDict d)"
       "map_of d (str ''choices'') = Some (PyList (PyDict c # rest))"
       "map_of c (str ''message'') = Some (PyDict m)"
       "map_of m (str ''content'') = None" for r d c rest m
  proof -
    from that(2,3,4,5,6) have "read_reply r = Inl (KeyError (Key (str ''content'')))"
      by (simp add: read_reply_def raise_for_status_def response_json_def and_then_def
            py_index_def)
    with c'[OF that(1,2)] show ?thesis by blast
  qed
  have 11: "out = str ''Other error occurred: '' @ str_exc AttributeError"
    if "remote w (calls w) rq = Inr r" "\<not> (400 \<le> status_code r \<and> status_code r < 600)"
       "json_body r = Some (PyDict d)"
       "map_of d (str ''choices'') = Some (PyList (PyDict c # rest))"
       "map_of c (str ''message'') = Some (PyDict m)"
       "map_of m (str ''content'') = Some v" "\<forall>t. v \<noteq> PyStr t" for r d c rest m v
  proof -
    from that(7) have "strip_method v = Inl AttributeError" by (cases v) auto
    with that(2,3,4,5,6) have "read_reply r = Inl AttributeError"
      by (simp add: read_reply_def raise_for_status_def response_json_def and_then_def
            py_index_def)
    with c'[OF that(1,2)] show ?thesis by blast
  qed
  show ?thesis
    apply (rule exI[of _ rq], rule exI[of _ out])
    apply (intro conjI allI impI)
                apply (rule s)
               apply (rule out)
              apply (erule conjE, erule (1) 1)
             apply (elim conjE, erule (3) 2)
            apply (erule 3)
           apply (elim conjE, erule (2) 4)
          apply (elim conjE, erule (2) 5)
         apply (elim conjE, erule (3) 6)
        apply (elim conjE, erule (3) 7)
       apply (elim conjE, erule (3) 8)
      apply (elim conjE, erule (4) 9)
     apply (elim conjE, erule (5) 10)
    apply (elim conjE, erule (6) 11)
    done
qed

theorem query_groq_api_returns_a_string_witness:
  "fst (query_groq_api class_name (str ''open bugs'') None
          (world_with [] (Inr \<lparr>status_code = 429, json_body = None\<rparr>))) =
     Inr (str ''API key limit reached. Please try again later.'') \<and>
   fst (query_groq_api class_name (str ''open bugs'') None
          (world_with [] (Inr \<lparr>status_code = 503, json_body = None\<rparr>))) =
     Inr (str ''HTTP error occurred: HTTPError'') \<and>
   fst (query_groq_api class_name (str ''open bugs'') None
          (world_with [] (Inl (Timeout (str ''timed out''))))) =
     Inr (str ''Other error occurred: RequestFailed'') \<and>
   fst (query_groq_api class_name (str ''open bugs'') None
          (world_with [] (Inr \<lparr>status_code = 200, json_body = None\<rparr>))) =
     Inr (str ''Other error occurred: JSONDecodeError'') \<and>
   fst (query_groq_api class_name (str ''open bugs'') None
          (world_with [] (Inr \<lparr>status_code = 200, json_body = Some (PyList [])\<rparr>))) =
     Inr (str ''Other error occurred: TypeError'') \<and>
   fst (query_groq_api class_name (str ''open bugs'') None
          (world_with [] (Inr \<lparr>status_code = 200, json_body = Some (PyDict [])\<rparr>))) =
     Inr (str ''Other error occurred: KeyError'') \<and>
   fst (query_groq_api class_name (str ''open bugs'') None
          (world_with []
             (Inr \<lparr>status_code = 200,
                    json_body = Some (PyDict [(str ''choices'', PyList [])])\<rparr>))) =
     Inr (str ''Other error occurred: IndexError'') \<and>
   fst (query_groq_api class_name (str ''open bugs'') None
          (world_with []
             (Inr \<lparr>status_code = 200,
                    json_body = Some (PyDict [(str ''choices'',
                      PyList [PyDict [(str ''message'',
                        PyDict [(str ''content'', PyNone)])]])])\<rparr>))) =
     Inr (str ''Other error occurred: AttributeError'') \<and>
   (\<exists>err. read_reply \<lparr>status_code = 200,
                json_body = Some (PyDict [(str ''choices'', PyStr (str ''none''))])\<rparr> = Inl err \<and>
      fst (query_groq_api class_name (str ''open bugs'') None
          (world_with []
             (Inr \<lparr>status_code = 200,
                    json_body = Some (PyDict [(str ''choices'', PyStr (str ''none''))])\<rparr>))) =
        Inr (str ''Other error occurred: '' @ class_name err))"
proof (intro conjI)
  show "fst (query_groq_api class_name (str ''open bugs'') None
          (world_with [] (Inr \<lparr>status_code = 429, json_body = None\<rparr>))) =
     Inr (str ''API key limit reached. Please try again later.'')"
    using query_groq_api_returns_a_string
      [of class_name "str ''open bugs''" None
          "world_with [] (Inr \<lparr>status_code = 429, json_body = None\<rparr>)"]
    by (auto simp: world_with_def world_sending_def sends_def answers_def)
  show "fst (query_groq_api class_name (str ''open bugs'') None
          (world_with [] (Inr \<lparr>status_code = 503, json_body = None\<rparr>))) =
     Inr (str ''HTTP error occurred: HTTPError'')"
    using query_groq_api_returns_a_string
      [of class_name "str ''open bugs''" None
          "world_with [] (Inr \<lparr>status_code = 503, json_body = None\<rparr>)"]
    by (auto simp: world_with_def world_sending_def sends_def answers_def str_def)
  show "fst (query_groq_api class_name (str ''open bugs'') None
          (world_with [] (Inl (Timeout (str ''timed out''))))) =
     Inr (str ''Other error occurred: RequestFailed'')"
    using query_groq_api_returns_a_string
      [of class_name "str ''open bugs''" None
          "world_with [] (Inl (Timeout (str ''timed out'')))"]
    by (auto simp: world_with_def world_sending_def sends_def answers_def str_def)
  show "fst (query_groq_api class_name (str ''open bugs'') None
          (world_with [] (Inr \<lparr>status_code = 200, json_body = None\<rparr>))) =
     Inr (str ''Other error occurred: JSONDecodeError'')"
    using query_groq_api_returns_a_string
      [of class_name "str ''open bugs''" None
          "world_with [] (Inr \<lparr>status_code = 200, json_body = None\<rparr>)"]
    by (auto simp: world_with_def world_sending_def sends_def answers_def str_def)
  show "fst (query_groq_api class_name (str ''open bugs'') None
          (world_with [] (Inr \<lparr>status_code = 200, json_body = Some (PyList [])\<rparr>))) =
     Inr (str ''Other error occurred: TypeError'')"
    using query_groq_api_returns_a_string
      [of class_name "str ''open bugs''" None
          "world_with [] (Inr \<lparr>status_code = 200, json_body = Some (PyList [])\<rparr>)"]
    by (auto simp: world_with_def world_sending_def sends_def answers_def str_def)
  show "fst (query_groq_api class_name (str ''open bugs'') None
          (world_with [] (Inr \<lparr>status_code = 200, json_body = Some (PyDict [])\<rparr>))) =
     Inr (str ''Other error occurred: KeyError'')"
    using query_groq_api_returns_a_string
      [of class_name "str ''open bugs''" None
          "world_with [] (Inr \<lparr>status_code = 200, json_body = Some (PyDict [])\<rparr>)"]
    by (auto simp: world_with_def world_sending_def sends_def answers_def str_def)
  show "fst (query_groq_api class_name (str ''open bugs'') None
          (world_with []
             (Inr \<lparr>status_code = 200,
                    json_body = Some (PyDict [(str ''choices'', PyList [])])\<rparr>))) =
     Inr (str ''Other error occurred: IndexError'')"
    using query_groq_api_returns_a_string
      [of class_name "str ''open bugs''" None
          "world_with []
             (Inr \<lparr>status_code = 200,
                    json_body = Some (PyDict [(str ''choices'', PyList [])])\<rparr>)"]
    by (auto simp: world_with_def world_sending_def sends_def answers_def str_def)
  show "fst (query_groq_api class_name (str ''open bugs'') None
          (world_with []
             (Inr \<lparr>status_code = 200,
                    json_body = Some (PyDict [(str ''choices'',
                      PyList [PyDict [(str ''message'',
                        PyDict [(str ''content'', PyNone)])]])])\<rparr>))) =
     Inr (str ''Other error occurred: AttributeError'')"
    using query_groq_api_returns_a_string
      [of class_name "str ''open bugs''" None
          "world_with []
             (Inr \<lparr>status_code = 200,
                    json_body = Some (PyDict [(str ''choices'',
                      PyList [PyDict [(str ''message'',
                        PyDict [(str ''content'', PyNone)])]])])\<rparr>)"]
    by (auto simp: world_with_def world_sending_def sends_def answers_def str_def)
  show "\<exists>err. read_reply \<lparr>status_code = 200,
                json_body = Some (PyDict [(str ''choices'', PyStr (str ''none''))])\<rparr> = Inl err \<and>
      fst (query_groq_api class_name (str ''open bugs'') None
          (world_with []
             (Inr \<lparr>status_code = 200,
                    json_body = Some (PyDict [(str ''choices'', PyStr (str ''none''))])\<rparr>))) =
        Inr (str ''Other error occurred: '' @ class_name err)"
    using query_groq_api_returns_a_string
      [of class_name "str ''open bugs''" None
          "world_with []
             (Inr \<lparr>status_code = 200,
                    json_body = Some (PyDict [(str ''choices'', PyStr (str ''none''))])\<rparr>)"]
    by (auto simp: world_with_def world_sending_def sends_def answers_def)
qed

text \<open>
  Claim C4. When the response has a status outside 400 to 599 and its body is a JSON
  object whose \<open>choices\<close> is a list whose first element holds
  \<open>message.content\<close> as a string, the client returns that string with its
  surrounding whitespace removed, and nothing else.
\<close>

theorem query_groq_api_success:
  "\<exists>rq.
     calls (snd (query_groq_api str_exc q key w)) = calls w @ [rq] \<and>
     (\<forall>r body choice rest msg reply.
        remote w (calls w) rq = Inr r \<and> \<not> (400 \<le> status_code r \<and> status_code r < 600) \<and>
        json_body r = Some (PyDict body) \<and>
        map_of body (str ''choices'') = Some (PyList (PyDict choice # rest)) \<and>
        map_of choice (str ''message'') = Some (PyDict msg) \<and>
        map_of msg (str ''content'') = Some (PyStr reply) \<longrightarrow>
        fst (query_groq_api str_exc q key w) = Inr (py_strip reply))"
proof -
  obtain rq where s: "calls (snd (query_groq_api str_exc q key w)) = calls w @ [rq]"
    and f: "fst (query_groq_api str_exc q key w) =
       (case remote w (calls w) rq of
          Inl failure \<Rightarrow> except_clauses str_exc None (RequestFailed failure)
        | Inr response \<Rightarrow>
            (case read_reply response of
               Inl err \<Rightarrow> except_clauses str_exc (Some response) err
             | Inr jql \<Rightarrow> Inr jql))"
    using query_groq_api_sent[of str_exc q key w] by blast
  have "fst (query_groq_api str_exc q key w) = Inr (py_strip reply)"
    if "remote w (calls w) rq = Inr r" "\<not> (400 \<le> status_code r \<and> status_code r < 600)"
       "json_body r = Some (PyDict body)"
       "map_of body (str ''choices'') = Some (PyList (PyDict choice # rest))"
       "map_of choice (str ''message'') = Some (PyDict msg)"
       "map_of msg (str ''content'') = Some (PyStr reply)"
    for r body choice rest msg reply
  proof -
    from that have "read_reply r = Inr (py_strip reply)"
      by (simp add: read_reply_def raise_for_status_def response_json_def and_then_def py_index_def)
    with f that(1) show ?thesis by simp
  qed
  with s show ?thesis by blast
qed

theorem query_groq_api_success_witness:
  "fst (query_groq_api class_name (str ''open bugs'') (Some (str ''k''))
          (world_with [] (Inr \<lparr>status_code = 200,
                                 json_body = Some (reply_with (str '' project = X\<newline>''))\<rparr>))) =
     Inr (str ''project = X'')"
  using query_groq_api_success
    [of class_name "str ''open bugs''" "Some (str ''k'')"
        "world_with [] (Inr \<lparr>status_code = 200, json_body = Some (reply_with (str '' project = X\<newline>''))\<rparr>)"]
  by (auto simp: world_with_def world_sending_def sends_def answers_def reply_with_def str_def py_strip_def isspace_def)

section \<open>The requests of the three actions\<close>

lemma sublist_skip: "sublist xs ys \<Longrightarrow> sublist xs (ps @ ys)"
  by (metis sublist_append)

lemma sublist_first: "sublist xs ys \<Longrightarrow> sublist xs (ys @ ss)"
  by (metis sublist_append)

lemma create_jql_filter_eq:
  "create_jql_filter str_exc q w = query_groq_api str_exc q (get_groq_api_key w) w"
  by (simp add: create_jql_filter_def)

lemma generate_world: "snd (generate str_exc x w) = snd (create_jql_filter str_exc x w)"
  by (simp add: generate_def split: prod.splits)

lemma refine_with_error_world:
  "snd (refine_with_error str_exc q e w) =
   snd (create_jql_filter str_exc
          (str ''Original query: '' @ q @ str ''\<newline>Jira error: '' @ e @
           str ''\<newline>Please fix the JQL query based on this error.'') w)"
  by (simp add: refine_with_error_def split: prod.splits)

lemma sublist_after2: "sublist x (a @ b @ x @ rest)"
  by (metis append.assoc sublist_appendI)

lemma sublist_after4: "sublist x (a @ b @ c @ d @ x @ rest)"
  by (metis append.assoc sublist_appendI)



lemma rule_epics: \<open>sublist (str ''For Epics, ALWAYS use 'issuetype = "Program Epic"' (never use just 'Epic')'') system_content\<close>
  unfolding system_content_def
  apply (rule sublist_skip, rule sublist_skip, rule sublist_first)
  apply (simp add: str_def sublist_Cons_right)
  done

lemma rule_features: \<open>sublist (str ''For Features, always use 'issuetype = "Feature"'') system_content\<close>
  unfolding system_content_def
  apply (rule sublist_skip, rule sublist_skip, rule sublist_skip, rule sublist_first)
  apply (simp add: str_def sublist_Cons_right)
  done

lemma rule_stories: \<open>sublist (str ''For Stories, use 'issuetype = "Story"'') system_content\<close>
  unfolding system_content_def
  apply (rule sublist_skip, rule sublist_skip, rule sublist_skip, rule sublist_skip,
         rule sublist_first)
  apply (simp add: str_def sublist_Cons_right)
  done

lemma rule_enablers: \<open>sublist (str ''For Enablers, use 'issuetype = "Enabler"'') system_content\<close>
  unfolding system_content_def
  apply (rule sublist_skip, rule sublist_skip, rule sublist_skip, rule sublist_skip,
         rule sublist_skip, rule sublist_first)
  apply (simp add: str_def sublist_Cons_right)
  done

lemma rule_tilde: \<open>sublist (str ''When checking for text matches, use the tilde operator (~)'') system_content\<close>
  unfolding system_content_def
  apply (rule sublist_skip, rule sublist_skip, rule sublist_skip, rule sublist_skip,
         rule sublist_skip, rule sublist_skip, rule sublist_first)
  apply (simp add: str_def sublist_Cons_right)
  done

lemma rule_parent: \<open>sublist (str ''Use 'parent in (issue in ...)' for parent relationships'') system_content\<close>
  unfolding system_content_def
  apply (rule sublist_skip, rule sublist_skip, rule sublist_skip, rule sublist_skip,
         rule sublist_skip, rule sublist_skip, rule sublist_skip, rule sublist_skip,
         rule sublist_first)
  apply (simp add: str_def sublist_Cons_right)
  done

lemma rule_direct: \<open>sublist (str ''Use 'issue in (...)' for direct relationships'') system_content\<close>
  unfolding system_content_def
  apply (rule sublist_skip, rule sublist_skip, rule sublist_skip, rule sublist_skip,
         rule sublist_skip, rule sublist_skip, rule sublist_skip, rule sublist_skip,
         rule sublist_skip, rule sublist_first)
  apply (simp add: str_def sublist_Cons_right)
  done

lemma rule_parentheses: \<open>sublist (str ''Always use proper parentheses for complex conditions with AND/OR'') system_content\<close>
  unfolding system_content_def
  apply (rule sublist_skip, rule sublist_skip, rule sublist_skip, rule sublist_skip,
         rule sublist_skip, rule sublist_skip, rule sublist_skip, rule sublist_skip,
         rule sublist_skip, rule sublist_skip, rule sublist_first)
  apply (simp add: str_def sublist_Cons_right)
  done

lemma rule_backticks: \<open>sublist (str ''Remove any backticks or formatting from the output'') system_content\<close>
  unfolding system_content_def
  apply (rule sublist_skip, rule sublist_skip, rule sublist_skip, rule sublist_skip,
         rule sublist_skip, rule sublist_skip, rule sublist_skip, rule sublist_skip,
         rule sublist_skip, rule sublist_skip, rule sublist_skip, rule sublist_first)
  apply (simp add: str_def sublist_Cons_right)
  done

lemma rule_query_only: \<open>sublist (str ''Respond only with the JQL query, without any explanations or additional text.'') system_content\<close>
  unfolding system_content_def
  apply (rule sublist_skip)+
  apply (simp add: str_def sublist_Cons_right)
  done

text \<open>
  Claim C6. The system message of every request is one constant text, whatever the
  intent, the key and the world, and it contains the rules: Epics as the issue type
  "Program Epic" and never just "Epic"; Features, Stories and Enablers each as their own
  issue type; the tilde operator for text matches; parent relationships as a nested
  membership filter and direct ones as a plain one; parentheses around compound
  conditions; no backticks or formatting; and only the query, without further text.
\<close>

theorem system_message_is_fixed:
  \<open>\<exists>rq usr.
     calls (snd (query_groq_api str_exc q key w)) = calls w @ [rq] \<and>
     messages (req_json rq) = [\<lparr>role = str ''system'', content = system_content\<rparr>, usr] \<and>
     sublist (str ''For Epics, ALWAYS use 'issuetype = "Program Epic"' (never use just 'Epic')'') system_content \<and>
     sublist (str ''For Features, always use 'issuetype = "Feature"'') system_content \<and>
     sublist (str ''For Stories, use 'issuetype = "Story"'') system_content \<and>
     sublist (str ''For Enablers, use 'issuetype = "Enabler"'') system_content \<and>
     sublist (str ''When checking for text matches, use the tilde operator (~)'') system_content \<and>
     sublist (str ''Use 'parent in (issue in ...)' for parent relationships'') system_content \<and>
     sublist (str ''Use 'issue in (...)' for direct relationships'') system_content \<and>
     sublist (str ''Always use proper parentheses for complex conditions with AND/OR'') system_content \<and>
     sublist (str ''Remove any backticks or formatting from the output'') system_content \<and>
     sublist (str ''Respond only with the JQL query, without any explanations or additional text.'') system_content\<close>
proof -
  obtain rq where "calls (snd (query_groq_api str_exc q key w)) = calls w @ [rq]"
    and "messages (req_json rq) =
       [\<lparr>role = str ''system'', content = system_content\<rparr>,
        \<lparr>role = str ''user'', content = str ''Create a JQL query for the following request: '' @ q\<rparr>]"
    using query_groq_api_sent[of str_exc q key w] by blast
  then have "\<exists>rq usr. calls (snd (query_groq_api str_exc q key w)) = calls w @ [rq] \<and>
     messages (req_json rq) = [\<lparr>role = str ''system'', content = system_content\<rparr>, usr]"
    by blast
  with rule_epics rule_features rule_stories rule_enablers rule_tilde rule_parent rule_direct
    rule_parentheses rule_backticks rule_query_only
  show ?thesis by blast
qed

text \<open>
  Claim C7. For every intent text and error text, refine sends one request whose user
  message is a single instruction built from both, and that message contains the intent
  text and the error text as they were given.
\<close>

theorem refine_sends_both_inputs:
  "\<exists>rq usr.
     calls (snd (refine_with_error str_exc intent error_text w)) = calls w @ [rq] \<and>
     messages (req_json rq) = [\<lparr>role = str ''system'', content = system_content\<rparr>, usr] \<and>
     role usr = str ''user'' \<and>
     content usr =
       str ''Create a JQL query for the following request: '' @
       str ''Original query: '' @ intent @ str ''\<newline>Jira error: '' @ error_text @
       str ''\<newline>Please fix the JQL query based on this error.'' \<and>
     sublist intent (content usr) \<and> sublist error_text (content usr)"
proof -
  let ?c = "str ''Original query: '' @ intent @ str ''\<newline>Jira error: '' @ error_text @
       str ''\<newline>Please fix the JQL query based on this error.''"
  obtain rq where s: "calls (snd (refine_with_error str_exc intent error_text w)) = calls w @ [rq]"
    and m: "messages (req_json rq) =
       [\<lparr>role = str ''system'', content = system_content\<rparr>,
        \<lparr>role = str ''user'', content = str ''Create a JQL query for the following request: '' @ ?c\<rparr>]"
    using query_groq_api_sent[of str_exc ?c "get_groq_api_key w" w]
    unfolding refine_with_error_world create_jql_filter_eq by blast
  have 1: "sublist intent (str ''Create a JQL query for the following request: '' @ ?c)"
    by (rule sublist_after2)
  have 2: "sublist error_text (str ''Create a JQL query for the following request: '' @ ?c)"
    by (rule sublist_after4)
  from s m 1 2 show ?thesis
    by (intro exI[of _ rq]
          exI[of _ "\<lparr>role = str ''user'',
                     content = str ''Create a JQL query for the following request: '' @ ?c\<rparr>"])
       simp
qed

text \<open>
  Claim C8. The done button sets the four visible fields (intent, error message, query,
  explanation) to the empty string, whatever they held.
\<close>

theorem done_click_clears_all_fields:
  "done_click shown =
     \<lparr>search_query = str '''', jira_error = str '''', jql_output = str '''',
      explanation_output = str ''''\<rparr> \<and>
   str '''' = []"
  by (simp add: done_click_def done_lambda_def str_def)

text \<open>
  Claim C9 says the credential is read once at startup and stays what it was then. The
  program reads it on every call instead: two generate actions with the variable changed
  in between send two different credentials.
\<close>

theorem credential_read_once_counterexample:
  "map authorization
     (calls (snd (generate class_name (str ''open bugs'')
        ((snd (generate class_name (str ''open bugs'')
                 (world_with [(str ''GROQ_API_KEY'', str ''old'')] (Inl (Timeout (str ''timed out''))))))
         \<lparr>environ := map_of [(str ''GROQ_API_KEY'', str ''new'')]\<rparr>)))) =
   [Some (str ''Bearer old''), Some (str ''Bearer new'')] \<and>
   str ''Bearer old'' \<noteq> str ''Bearer new''"
  by (simp add: generate_world create_jql_filter_eq query_groq_api_def requests_post_def
        get_groq_api_key_def world_with_def world_sending_def sends_def authorization_def answers_def str_def)

text \<open>
  Claim C9, as the program has it. Every call of \<open>create_jql_filter\<close> reads
  \<open>GROQ_API_KEY\<close> from the environment of that moment, and the one request it sends
  carries "Bearer " followed by that value ("None" when the variable is unset). The
  actions of the program leave the environment as it is.
\<close>

theorem credential_read_on_every_call:
  "\<exists>rq.
     calls (snd (create_jql_filter str_exc q w)) = calls w @ [rq] \<and>
     authorization rq = Some (str ''Bearer '' @ format_field (environ w (str ''GROQ_API_KEY''))) \<and>
     environ (snd (create_jql_filter str_exc q w)) = environ w \<and>
     environ (snd (generate str_exc q w)) = environ w \<and>
     environ (snd (refine_with_error str_exc q e w)) = environ w"
proof -
  have "environ (snd (refine_with_error str_exc q e w)) = environ w"
    using query_groq_api_sent unfolding refine_with_error_world create_jql_filter_eq by blast
  moreover obtain rq where "calls (snd (create_jql_filter str_exc q w)) = calls w @ [rq]"
    "environ (snd (create_jql_filter str_exc q w)) = environ w"
    "req_headers rq = [(str ''Authorization'', str ''Bearer '' @ format_field (get_groq_api_key w)),
                       (str ''Content-Type'', str ''application/json'')]"
    using query_groq_api_sent[of str_exc q "get_groq_api_key w" w]
    unfolding create_jql_filter_eq by blast
  ultimately show ?thesis
    by (intro exI[of _ rq]) (simp add: authorization_def generate_world get_groq_api_key_def)
qed

end
